theory Spec2Isabelle
  imports Complex_Main
begin

section \<open>JavaScript values\<close>

text \<open>
  The request payloads are object literals and the responses are JSON documents, so the
  values of the model are the JSON values together with \<open>undefined\<close> and the
  \<open>TypeError\<close> object the runtime throws when a property of \<open>undefined\<close> or
  \<open>null\<close> is read. An object is the list of its properties in the order of the literal;
  numbers are the integers (counts, indices and magnitudes are the only numbers of the source).
\<close>

datatype jsval =
    JUndefined
  | JNull
  | JBool bool
  | JNum int
  | JStr string
  | JArr "jsval list"
  | JObj "(string \<times> jsval) list"
  | JTypeError

text \<open>The test \<open>if (err)\<close>: a value is falsy when it is \<open>undefined\<close>, \<open>null\<close>,
  \<open>false\<close>, \<open>0\<close> or the empty string.\<close>

fun truthy :: "jsval \<Rightarrow> bool" where
  "truthy JUndefined = False"
| "truthy JNull = False"
| "truthy (JBool b) = b"
| "truthy (JNum n) = (n \<noteq> 0)"
| "truthy (JStr s) = (s \<noteq> [])"
| "truthy (JArr xs) = True"
| "truthy (JObj kvs) = True"
| "truthy JTypeError = True"


text \<open>The conversion of a non-negative integer to a string in a template literal
  (\<open>`slide_${i}`\<close>): its decimal digits.\<close>

definition digit :: "nat \<Rightarrow> char" where
  "digit d = ''0123456789'' ! d"

function decimal :: "nat \<Rightarrow> string" where
  "decimal n = (if n < 10 then [digit n] else decimal (n div 10) @ [digit (n mod 10)])"
  by pat_completeness auto
termination
  by (relation "measure (\<lambda>n. n)") auto

declare decimal.simps [simp del]

text \<open>
  Reading a property, \<open>v.k\<close>, throws a \<open>TypeError\<close> on \<open>undefined\<close> and
  \<open>null\<close>, gives the property of an object, and \<open>undefined\<close> when the object has no
  such property or the value is a primitive or an array (the names the source reads,
  \<open>data\<close>, \<open>presentationId\<close>, \<open>spreadsheetId\<close>, \<open>replies\<close>, \<open>createShape\<close>,
  \<open>createSheetsChart\<close> and \<open>objectId\<close>, are not inherited from a built-in prototype).
  Reading an element, \<open>v[i]\<close>, gives \<open>undefined\<close> out of range.
\<close>

fun get_prop :: "jsval \<Rightarrow> string \<Rightarrow> jsval + jsval" where
  "get_prop JUndefined k = Inl JTypeError"
| "get_prop JNull k = Inl JTypeError"
| "get_prop (JObj kvs) k = Inr (case map_of kvs k of None \<Rightarrow> JUndefined | Some v \<Rightarrow> v)"
| "get_prop v k = Inr JUndefined"

fun get_elem :: "jsval \<Rightarrow> nat \<Rightarrow> jsval + jsval" where
  "get_elem JUndefined i = Inl JTypeError"
| "get_elem JNull i = Inl JTypeError"
| "get_elem (JArr xs) i = Inr (if i < length xs then xs ! i else JUndefined)"
| "get_elem (JStr s) i = Inr (if i < length s then JStr [s ! i] else JUndefined)"
| "get_elem (JObj kvs) i = get_prop (JObj kvs) (decimal i)"
| "get_elem v i = Inr JUndefined"

datatype accessor = Dot string | At nat

fun member_of :: "jsval \<Rightarrow> accessor \<Rightarrow> jsval + jsval" where
  "member_of v (Dot k) = get_prop v k"
| "member_of v (At i) = get_elem v i"

text \<open>A member expression \<open>v.a.b[0].c\<close>, evaluated left to right; the first throw ends it.\<close>

fun path :: "jsval \<Rightarrow> accessor list \<Rightarrow> jsval + jsval" where
  "path v [] = Inr v"
| "path v (a # as) = (case member_of v a of Inl e \<Rightarrow> Inl e | Inr u \<Rightarrow> path u as)"

section \<open>Remote calls, promises and the console\<close>

text \<open>
  A remote call is the service handle it goes through, the method and the parameter
  object. The remote services are not part of the program: the reply to the \<open>n\<close>-th call
  issued is given by an arbitrary oracle. A reply is the pair \<open>(err, response)\<close> that a
  Node callback receives, the call having failed when \<open>err\<close> is truthy, and the number
  of ticks after which it arrives. The world records the calls issued, in order, and
  the lines written to the console.
\<close>

record service =
  api :: string
  version :: string
  scopes :: "string list"

record call =
  via :: service
  rpc :: string
  params :: jsval

record reply =
  err :: jsval
  res :: jsval
  delay :: nat

datatype console_line = Console_log jsval | Console_error jsval

record world =
  calls :: "call list"
  console :: "console_line list"

type_synonym remote = "nat \<Rightarrow> reply"

definition invoke :: "remote \<Rightarrow> call \<Rightarrow> world \<Rightarrow> reply \<times> world" where
  "invoke orc c w = (orc (length (calls w)), w\<lparr>calls := calls w @ [c]\<rparr>)"

text \<open>
  How a promise ends: resolved with a value, rejected with a reason, or never settled
  because the callback that was to settle it threw (the value thrown is kept).
\<close>

datatype outcome = Resolved jsval | Rejected jsval | Unsettled jsval

text \<open>A call made without a callback returns a promise: rejected with \<open>err\<close> when the
  call failed, resolved with the response otherwise, after the reply's delay.\<close>

definition promise_of_reply :: "reply \<Rightarrow> (jsval + jsval) \<times> nat" where
  "promise_of_reply r = (if truthy (err r) then Inl (err r) else Inr (res r), delay r)"

text \<open>
  \<open>Promise.all\<close> over promises given by their result (\<open>Inl\<close> a rejection) and the time
  they settle: it rejects with the earliest rejection, at the time of that rejection (of
  two at the same time, the one earlier in the list); with no rejection it resolves with
  the list of the values when the last promise has resolved.
\<close>

fun first_rejection :: "((jsval + jsval) \<times> nat) list \<Rightarrow> (jsval \<times> nat) option" where
  "first_rejection [] = None"
| "first_rejection ((Inr v, t) # ps) = first_rejection ps"
| "first_rejection ((Inl e, t) # ps) =
     (case first_rejection ps of
        None \<Rightarrow> Some (e, t)
      | Some (e', t') \<Rightarrow> if t \<le> t' then Some (e, t) else Some (e', t'))"

fun fulfilled_value :: "(jsval + jsval) \<times> nat \<Rightarrow> jsval" where
  "fulfilled_value (Inr v, t) = v"
| "fulfilled_value (Inl e, t) = JUndefined"

definition Promise_all :: "((jsval + jsval) \<times> nat) list \<Rightarrow> outcome \<times> nat" where
  "Promise_all ps =
     (case first_rejection ps of
        Some (e, t) \<Rightarrow> (Rejected e, t)
      | None \<Rightarrow> (Resolved (JArr (map fulfilled_value ps)), fold max (map snd ps) 0))"

text \<open>\<open>Array.prototype.map\<close> with a function that issues one call per element.\<close>

fun issue_all :: "remote \<Rightarrow> call list \<Rightarrow> world \<Rightarrow> reply list \<times> world" where
  "issue_all orc [] w = ([], w)"
| "issue_all orc (c # cs) w =
     (let (r, w') = invoke orc c w;
          (rs, w'') = issue_all orc cs w'
      in (r # rs, w''))"

section \<open>The Helpers class (slides/snippets/test/helpers.js)\<close>

text \<open>The constructor builds the three service handles, as \<open>google.drive({version, auth})\<close>
  does, from the API, its version and the scopes of the \<open>GoogleAuth\<close> object.\<close>

record Helpers =
  driveService :: service
  slidesService :: service
  sheetsService :: service
  filesToDelete :: "jsval list"

definition auth_scopes :: "string list" where
  "auth_scopes =
     [''https://www.googleapis.com/auth/drive'',
      ''https://www.googleapis.com/auth/presentations'',
      ''https://www.googleapis.com/auth/spreadsheets'']"

definition Helpers_constructor :: Helpers where
  "Helpers_constructor =
     \<lparr>driveService = \<lparr>api = ''drive'', version = ''v3'', scopes = auth_scopes\<rparr>,
      slidesService = \<lparr>api = ''slides'', version = ''v1'', scopes = auth_scopes\<rparr>,
      sheetsService = \<lparr>api = ''sheets'', version = ''v4'', scopes = auth_scopes\<rparr>,
      filesToDelete = []\<rparr>"

definition reset :: "Helpers \<Rightarrow> Helpers" where
  "reset h = h\<lparr>filesToDelete := []\<rparr>"

definition deleteFileOnCleanup :: "Helpers \<Rightarrow> jsval \<Rightarrow> Helpers" where
  "deleteFileOnCleanup h fid = h\<lparr>filesToDelete := filesToDelete h @ [fid]\<rparr>"


text \<open>
  Every method takes the oracle, the helper object and the world, and returns how its
  promise ends, the helper object and the world afterwards.
\<close>

definition cleanup :: "remote \<Rightarrow> Helpers \<Rightarrow> world \<Rightarrow> (outcome \<times> nat) \<times> Helpers \<times> world" where
  "cleanup orc h w =
     (let (rs, w') =
            issue_all orc
              (map (\<lambda>fileId. \<lparr>via = driveService h, rpc = ''files.delete'',
                               params = JObj [(''fileId'', fileId)]\<rparr>)
                   (filesToDelete h)) w
      in (Promise_all (map promise_of_reply rs), h, w'))"

text \<open>The replies to the delete calls of \<open>cleanup\<close>: they are the calls numbered from
  \<open>length (calls w)\<close> on, one for each tracked identifier.\<close>

definition cleanup_replies :: "remote \<Rightarrow> Helpers \<Rightarrow> world \<Rightarrow> reply list" where
  "cleanup_replies orc h w =
     map (\<lambda>k. orc (length (calls w) + k)) [0..<length (filesToDelete h)]"

text \<open>
  The four methods written with \<open>new Promise\<close> settle the promise in the callback of the
  client method: \<open>if (err) return reject(err)\<close>, then \<open>resolve\<close> with a member expression
  of the response. When reading that expression throws, the callback ends before
  \<open>deleteFileOnCleanup\<close>, \<open>resolve\<close> or \<open>reject\<close> is reached. The source reads
  \<open>presentation.data.presentationId\<close> twice, with the same result; the model reads it once.
\<close>

definition createTestPresentation_request :: jsval where
  "createTestPresentation_request = JObj [(''title'', JStr ''Test Preso'')]"

definition createTestPresentation :: "remote \<Rightarrow> Helpers \<Rightarrow> world \<Rightarrow> outcome \<times> Helpers \<times> world" where
  "createTestPresentation orc h w =
     (let (r, w') = invoke orc \<lparr>via = slidesService h, rpc = ''presentations.create'',
                                 params = createTestPresentation_request\<rparr> w
      in if truthy (err r) then (Rejected (err r), h, w')
         else (case path (res r) [Dot ''data'', Dot ''presentationId''] of
                 Inl e \<Rightarrow> (Unsettled e, h, w')
               | Inr presentationId \<Rightarrow>
                   (Resolved presentationId, deleteFileOnCleanup h presentationId, w')))"

definition createSlide_request :: "jsval \<Rightarrow> jsval \<Rightarrow> jsval" where
  "createSlide_request objectId predefinedLayout =
     JObj [(''createSlide'',
            JObj [(''objectId'', objectId),
                  (''slideLayoutReference'',
                   JObj [(''predefinedLayout'', predefinedLayout)])])]"

definition array_get :: "jsval list \<Rightarrow> nat \<Rightarrow> jsval" where
  "array_get xs i = (if i < length xs then xs ! i else JUndefined)"

text \<open>
  The loop \<open>for (let i = 0; i < num; ++i)\<close> of \<open>addSlides\<close>, with the two arrays it
  fills. The argument \<open>num\<close> is a JavaScript number and need not be an integer: it is
  modelled as a rational, which covers every finite number (\<open>2.5\<close> is \<open>5 / 2\<close>), and the
  counter \<open>i\<close> is compared with it as a number. The loop ends for every finite \<open>num\<close>; for
  \<open>Infinity\<close>, which the type leaves out, the loop of the source does not end and
  \<open>addSlides\<close> issues no call.
\<close>

function addSlides_loop ::
  "nat \<Rightarrow> rat \<Rightarrow> jsval \<Rightarrow> jsval list \<Rightarrow> jsval list \<Rightarrow> jsval list \<times> jsval list" where
  "addSlides_loop i num predefinedLayout requests slideIds =
     (if of_nat i < num then
        addSlides_loop (Suc i) num predefinedLayout
          (requests @
             [createSlide_request (array_get (slideIds @ [JStr (''slide_'' @ decimal i)]) i)
                predefinedLayout])
          (slideIds @ [JStr (''slide_'' @ decimal i)])
      else (requests, slideIds))"
  by pat_completeness auto
termination
proof (relation "measure (\<lambda>(i, num, l, rs, ids). nat \<lceil>num\<rceil> - i)")
  show "wf (measure (\<lambda>(i, num, l, rs, ids). nat \<lceil>num :: rat\<rceil> - i))"
    by simp
next
  fix i :: nat and num :: rat and predefinedLayout :: jsval and requests slideIds :: "jsval list"
  assume "of_nat i < num"
  then have "int i < \<lceil>num\<rceil>"
    by (simp add: less_ceiling_iff)
  then have "i < nat \<lceil>num\<rceil>"
    by linarith
  then show "((Suc i, num, predefinedLayout,
               requests @
                 [createSlide_request
                    (array_get (slideIds @ [JStr (''slide_'' @ decimal i)]) i) predefinedLayout],
               slideIds @ [JStr (''slide_'' @ decimal i)]),
              (i, num, predefinedLayout, requests, slideIds))
            \<in> measure (\<lambda>(i, num, l, rs, ids). nat \<lceil>num\<rceil> - i)"
    by simp
qed

declare addSlides_loop.simps [simp del]

definition batchUpdate_params :: "jsval \<Rightarrow> jsval list \<Rightarrow> jsval" where
  "batchUpdate_params presentationId requests =
     JObj [(''presentationId'', presentationId),
           (''resource'', JObj [(''requests'', JArr requests)])]"

definition addSlides ::
  "remote \<Rightarrow> Helpers \<Rightarrow> world \<Rightarrow> jsval \<Rightarrow> rat \<Rightarrow> jsval \<Rightarrow> outcome \<times> Helpers \<times> world" where
  "addSlides orc h w presentationId num predefinedLayout =
     (let (requests, slideIds) = addSlides_loop 0 num predefinedLayout [] [];
          (r, w') = invoke orc \<lparr>via = slidesService h, rpc = ''presentations.batchUpdate'',
                                 params = batchUpdate_params presentationId requests\<rparr> w
      in if truthy (err r) then (Rejected (err r), h, w')
         else (Resolved (JArr slideIds), h, w'))"

definition createTestTextbox_requests :: "jsval \<Rightarrow> jsval list" where
  "createTestTextbox_requests pageObjectId =
     (let boxId = JStr ''MyTextBox_01'';
          pt350 = JObj [(''magnitude'', JNum 350), (''unit'', JStr ''PT'')]
      in [JObj [(''createShape'',
                 JObj [(''objectId'', boxId),
                       (''shapeType'', JStr ''TEXT_BOX''),
                       (''elementProperties'',
                        JObj [(''pageObjectId'', pageObjectId),
                              (''size'', JObj [(''height'', pt350), (''width'', pt350)]),
                              (''transform'',
                               JObj [(''scaleX'', JNum 1),
                                     (''scaleY'', JNum 1),
                                     (''translateX'', JNum 350),
                                     (''translateY'', JNum 100),
                                     (''unit'', JStr ''PT'')])])])],
          JObj [(''insertText'',
                 JObj [(''objectId'', boxId),
                       (''insertionIndex'', JNum 0),
                       (''text'', JStr ''New Box Text Inserted'')])]])"

definition createTestTextbox ::
  "remote \<Rightarrow> Helpers \<Rightarrow> world \<Rightarrow> jsval \<Rightarrow> jsval \<Rightarrow> outcome \<times> Helpers \<times> world" where
  "createTestTextbox orc h w presentationId pageObjectId =
     (let (r, w') = invoke orc \<lparr>via = slidesService h, rpc = ''presentations.batchUpdate'',
                                 params = batchUpdate_params presentationId
                                            (createTestTextbox_requests pageObjectId)\<rparr> w
      in if truthy (err r) then (Rejected (err r), h, w')
         else (case path (res r) [Dot ''data'', Dot ''replies'', At 0,
                                  Dot ''createShape'', Dot ''objectId''] of
                 Inl e \<Rightarrow> (Unsettled e, h, w')
               | Inr objectId \<Rightarrow> (Resolved objectId, h, w')))"

definition createTestSheetsChart_requests :: "jsval \<Rightarrow> jsval \<Rightarrow> jsval \<Rightarrow> jsval list" where
  "createTestSheetsChart_requests pageId spreadsheetId sheetChartId =
     (let chartId = JStr ''MyChart_01'';
          emu4M = JObj [(''magnitude'', JNum 4000000), (''unit'', JStr ''EMU'')]
      in [JObj [(''createSheetsChart'',
                 JObj [(''objectId'', chartId),
                       (''spreadsheetId'', spreadsheetId),
                       (''chartId'', sheetChartId),
                       (''linkingMode'', JStr ''LINKED''),
                       (''elementProperties'',
                        JObj [(''pageObjectId'', pageId),
                              (''size'', JObj [(''height'', emu4M), (''width'', emu4M)]),
                              (''transform'',
                               JObj [(''scaleX'', JNum 1),
                                     (''scaleY'', JNum 1),
                                     (''translateX'', JNum 100000),
                                     (''translateY'', JNum 100000),
                                     (''unit'', JStr ''EMU'')])])])]])"

definition createTestSheetsChart ::
  "remote \<Rightarrow> Helpers \<Rightarrow> world \<Rightarrow> jsval \<Rightarrow> jsval \<Rightarrow> jsval \<Rightarrow> jsval \<Rightarrow>
   outcome \<times> Helpers \<times> world" where
  "createTestSheetsChart orc h w presentationId pageId spreadsheetId sheetChartId =
     (let (r, w') = invoke orc \<lparr>via = slidesService h, rpc = ''presentations.batchUpdate'',
                                 params = batchUpdate_params presentationId
                                            (createTestSheetsChart_requests pageId spreadsheetId
                                               sheetChartId)\<rparr> w
      in if truthy (err r) then (Rejected (err r), h, w')
         else (case path (res r) [Dot ''data'', Dot ''replies'', At 0,
                                  Dot ''createSheetsChart'', Dot ''objectId''] of
                 Inl e \<Rightarrow> (Unsettled e, h, w')
               | Inr objectId \<Rightarrow> (Resolved objectId, h, w')))"

text \<open>
  The last two methods wrap the client method with \<open>Promise.denodeify\<close>: the promise is
  rejected with a truthy \<open>err\<close> and resolved with the response otherwise, and a throw in
  the \<open>then\<close> handler rejects the promise that \<open>then\<close> returned.
\<close>

definition createTestSpreadsheet_request :: jsval where
  "createTestSpreadsheet_request =
     JObj [(''resource'',
            JObj [(''properties'', JObj [(''title'', JStr ''Test Spreadsheet'')])]),
           (''fields'', JStr ''spreadsheetId'')]"

definition createTestSpreadsheet :: "remote \<Rightarrow> Helpers \<Rightarrow> world \<Rightarrow> outcome \<times> Helpers \<times> world" where
  "createTestSpreadsheet orc h w =
     (let (r, w') = invoke orc \<lparr>via = sheetsService h, rpc = ''spreadsheets.create'',
                                 params = createTestSpreadsheet_request\<rparr> w
      in if truthy (err r) then (Rejected (err r), h, w')
         else (case path (res r) [Dot ''data'', Dot ''spreadsheetId''] of
                 Inl e \<Rightarrow> (Rejected e, h, w')
               | Inr spreadsheetId \<Rightarrow>
                   (Resolved spreadsheetId, deleteFileOnCleanup h spreadsheetId, w')))"

definition populateValues_request :: "jsval \<Rightarrow> jsval" where
  "populateValues_request spreadsheetId =
     JObj [(''spreadsheetId'', spreadsheetId),
           (''resource'',
            JObj [(''requests'',
                   JArr [JObj [(''repeatCell'',
                                JObj [(''range'',
                                       JObj [(''sheetId'', JNum 0),
                                             (''startRowIndex'', JNum 0),
                                             (''endRowIndex'', JNum 15),
                                             (''startColumnIndex'', JNum 0),
                                             (''endColumnIndex'', JNum 15)]),
                                      (''cell'',
                                       JObj [(''userEnteredValue'',
                                              JObj [(''stringValue'', JStr ''Hello'')])]),
                                      (''fields'', JStr ''userEnteredValue'')])]])])]"

definition populateValues ::
  "remote \<Rightarrow> Helpers \<Rightarrow> world \<Rightarrow> jsval \<Rightarrow> outcome \<times> Helpers \<times> world" where
  "populateValues orc h w spreadsheetId =
     (let (r, w') = invoke orc \<lparr>via = sheetsService h, rpc = ''spreadsheets.batchUpdate'',
                                 params = populateValues_request spreadsheetId\<rparr> w
      in if truthy (err r) then (Rejected (err r), h, w')
         else (Resolved spreadsheetId, h, w'))"

section \<open>The chat sample (chat/client-libraries/cloud/update-membership-user-cred.js)\<close>

definition USER_AUTH_OAUTH_SCOPES :: "string list" where
  "USER_AUTH_OAUTH_SCOPES = [''https://www.googleapis.com/auth/chat.memberships'']"

definition main_request :: jsval where
  "main_request =
     JObj [(''membership'',
            JObj [(''name'', JStr ''spaces/SPACE_NAME/members/MEMBER_NAME''),
                  (''role'', JStr ''ROLE_NAME'')]),
           (''updateMask'', JObj [(''paths'', JArr [JStr ''role''])])]"

text \<open>
  \<open>createClientWithUserCredentials\<close> is imported from \<open>authentication-utils.js\<close>, which
  is not among the sources; \<open>main\<close> takes it as a parameter: from the scopes it gives
  the client handle, or the reason its promise was rejected with (\<open>Inl\<close>).
\<close>

definition main :: "(string list \<Rightarrow> jsval + service) \<Rightarrow> remote \<Rightarrow> world \<Rightarrow> outcome \<times> world" where
  "main createClientWithUserCredentials orc w =
     (case createClientWithUserCredentials USER_AUTH_OAUTH_SCOPES of
        Inl e \<Rightarrow> (Rejected e, w)
      | Inr chatClient \<Rightarrow>
          (let request = main_request;
               (r, w') = invoke orc \<lparr>via = chatClient, rpc = ''updateMembership'',
                                      params = request\<rparr> w
           in if truthy (err r) then (Rejected (err r), w')
              else (Resolved JUndefined, w'\<lparr>console := console w' @ [Console_log (res r)]\<rparr>)))"

text \<open>The statement \<open>main().catch(console.error)\<close> at the top level of the script.\<close>

definition top_level :: "(string list \<Rightarrow> jsval + service) \<Rightarrow> remote \<Rightarrow> world \<Rightarrow> world" where
  "top_level createClientWithUserCredentials orc w =
     (case main createClientWithUserCredentials orc w of
        (Rejected e, w') \<Rightarrow> w'\<lparr>console := console w' @ [Console_error e]\<rparr>
      | (out, w') \<Rightarrow> w')"

section \<open>Concrete runs\<close>

text \<open>A world in which nothing has happened yet, a remote side that answers every call
  with a well-formed response, one that fails every call, and one that fails the first
  call early and answers the others late; a helper object with two tracked files; the
  chat client obtained, and its creation rejected.\<close>

definition no_calls :: world where
  "no_calls = \<lparr>calls = [], console = []\<rparr>"

definition sample_response :: jsval where
  "sample_response =
     JObj [(''data'',
            JObj [(''presentationId'', JStr ''p1''),
                  (''spreadsheetId'', JStr ''s1''),
                  (''replies'',
                   JArr [JObj [(''createShape'', JObj [(''objectId'', JStr ''MyTextBox_01'')]),
                               (''createSheetsChart'',
                                JObj [(''objectId'', JStr ''MyChart_01'')])]])])]"

definition not_found :: jsval where
  "not_found = JObj [(''code'', JNum 404)]"

definition ok_remote :: remote where
  "ok_remote n = \<lparr>err = JNull, res = sample_response, delay = Suc n\<rparr>"

definition failing_remote :: remote where
  "failing_remote n = \<lparr>err = not_found, res = JUndefined, delay = 1\<rparr>"

definition first_fails_remote :: remote where
  "first_fails_remote n =
     (if n = 0 then \<lparr>err = not_found, res = JUndefined, delay = 1\<rparr>
      else \<lparr>err = JNull, res = sample_response, delay = 5\<rparr>)"

definition two_files :: Helpers where
  "two_files =
     deleteFileOnCleanup (deleteFileOnCleanup Helpers_constructor (JStr ''p1'')) (JStr ''s1'')"

definition chat_client :: service where
  "chat_client = \<lparr>api = ''chat'', version = ''v1'', scopes = USER_AUTH_OAUTH_SCOPES\<rparr>"

definition no_client :: "string list \<Rightarrow> jsval + service" where
  "no_client ss = Inl (JStr ''no credentials'')"

definition obtain_client :: "string list \<Rightarrow> jsval + service" where
  "obtain_client ss = Inr \<lparr>api = ''chat'', version = ''v1'', scopes = ss\<rparr>"

section \<open>The loop of addSlides and the calls of cleanup\<close>

lemma addSlides_loop_eq:
  "length slideIds = i \<Longrightarrow>
   addSlides_loop i num l requests slideIds =
     (requests @ map (\<lambda>k. createSlide_request (JStr (''slide_'' @ decimal k)) l) [i..<nat \<lceil>num\<rceil>],
      slideIds @ map (\<lambda>k. JStr (''slide_'' @ decimal k)) [i..<nat \<lceil>num\<rceil>])"
proof (induction i num l requests slideIds rule: addSlides_loop.induct)
  case (1 i num l requests slideIds)
  let ?id = "JStr (''slide_'' @ decimal i)"
  show ?case
  proof (cases "of_nat i < num")
    case True
    then have "int i < \<lceil>num\<rceil>" by (simp add: less_ceiling_iff)
    then have lt: "i < nat \<lceil>num\<rceil>" by linarith
    have get: "array_get (slideIds @ [?id]) i = ?id"
      using "1.prems" by (simp add: array_get_def nth_append)
    have step: "addSlides_loop i num l requests slideIds =
        addSlides_loop (Suc i) num l (requests @ [createSlide_request ?id l]) (slideIds @ [?id])"
      using True get by (subst addSlides_loop.simps) simp
    have ih: "addSlides_loop (Suc i) num l
          (requests @ [createSlide_request (array_get (slideIds @ [?id]) i) l])
          (slideIds @ [?id]) =
        ((requests @ [createSlide_request (array_get (slideIds @ [?id]) i) l]) @
           map (\<lambda>k. createSlide_request (JStr (''slide_'' @ decimal k)) l) [Suc i..<nat \<lceil>num\<rceil>],
         (slideIds @ [?id]) @ map (\<lambda>k. JStr (''slide_'' @ decimal k)) [Suc i..<nat \<lceil>num\<rceil>])"
      using "1.IH"[OF True] "1.prems" by simp
    have "addSlides_loop i num l requests slideIds =
        ((requests @ [createSlide_request ?id l]) @
           map (\<lambda>k. createSlide_request (JStr (''slide_'' @ decimal k)) l) [Suc i..<nat \<lceil>num\<rceil>],
         (slideIds @ [?id]) @ map (\<lambda>k. JStr (''slide_'' @ decimal k)) [Suc i..<nat \<lceil>num\<rceil>])"
      using ih unfolding step get .
    then show ?thesis
      unfolding upt_conv_Cons[OF lt] by simp
  next
    case False
    then have "\<not> int i < \<lceil>num\<rceil>" by (simp add: less_ceiling_iff)
    then have "nat \<lceil>num\<rceil> \<le> i" by linarith
    with False show ?thesis by (subst addSlides_loop.simps) simp
  qed
qed

lemma issue_all_world: "snd (issue_all orc cs w) = w\<lparr>calls := calls w @ cs\<rparr>"
  by (induction cs arbitrary: w) (simp_all add: invoke_def split_def)

lemma issue_all_replies:
  "fst (issue_all orc cs w) = map (\<lambda>k. orc (length (calls w) + k)) [0..<length cs]"
proof (induction cs arbitrary: w)
  case Nil
  show ?case by simp
next
  case (Cons c cs)
  have "map (\<lambda>k. orc (length (calls w) + k)) [0..<Suc (length cs)] =
        orc (length (calls w)) # map (\<lambda>k. orc (Suc (length (calls w)) + k)) [0..<length cs]"
    by (simp only: upt_conv_Cons[OF zero_less_Suc] list.map map_Suc_upt[symmetric] map_map
          o_def add_0_right add_Suc_right add_Suc)
  then show ?case
    using Cons.IH[of "w\<lparr>calls := calls w @ [c]\<rparr>"]
    by (simp add: invoke_def split_def)
qed

lemma first_rejection_None:
  "first_rejection ps = None \<Longrightarrow> p \<in> set ps \<Longrightarrow> \<exists>v. fst p = Inr v"
  by (induction ps rule: first_rejection.induct) (auto split: option.splits if_splits)

lemma first_rejection_all_Inr:
  "\<forall>p\<in>set ps. \<exists>v. fst p = Inr v \<Longrightarrow> first_rejection ps = None"
  by (induction ps rule: first_rejection.induct) auto

lemma first_rejection_Some:
  "first_rejection ps = Some (e, t) \<Longrightarrow>
   (Inl e, t) \<in> set ps \<and> (\<forall>e' t'. (Inl e', t') \<in> set ps \<longrightarrow> t \<le> t')"
proof (induction ps arbitrary: e t rule: first_rejection.induct)
  case 1
  then show ?case by simp
next
  case (2 v t0 ps)
  then show ?case by simp
next
  case (3 e0 t0 ps)
  show ?case
  proof (cases "first_rejection ps")
    case None
    then have "\<And>p. p \<in> set ps \<Longrightarrow> \<exists>v. fst p = Inr v"
      by (rule first_rejection_None)
    then have "\<And>e' t'. (Inl e', t') \<notin> set ps" by fastforce
    moreover from None "3.prems" have "e = e0" "t = t0" by simp_all
    ultimately show ?thesis by simp
  next
    case (Some q)
    obtain e1 t1 where q: "q = (e1, t1)" by (cases q)
    have ih: "(Inl e1, t1) \<in> set ps \<and> (\<forall>e' t'. (Inl e', t') \<in> set ps \<longrightarrow> t1 \<le> t')"
      using "3.IH" Some q by simp
    show ?thesis
    proof (cases "t0 \<le> t1")
      case True
      with Some q "3.prems" have "e = e0" "t = t0" by simp_all
      with True ih show ?thesis by fastforce
    next
      case False
      with Some q "3.prems" have "e = e1" "t = t1" by simp_all
      with False ih show ?thesis by fastforce
    qed
  qed
qed

lemma fold_max_ge: "(a::nat) \<le> fold max xs a"
proof (induction xs arbitrary: a)
  case Nil
  show ?case by simp
next
  case (Cons y ys)
  have "a \<le> max y a" by simp
  also have "\<dots> \<le> fold max ys (max y a)" by (rule Cons.IH)
  finally show ?case by simp
qed

lemma fold_max_bound: "x \<in> set xs \<Longrightarrow> x \<le> fold max xs (a::nat)"
proof (induction xs arbitrary: a)
  case Nil
  then show ?case by simp
next
  case (Cons y ys)
  show ?case
  proof (cases "x = y")
    case True
    have "y \<le> max y a" by simp
    also have "\<dots> \<le> fold max ys (max y a)" by (rule fold_max_ge)
    finally show ?thesis using True by simp
  next
    case False
    with Cons show ?thesis by simp
  qed
qed

lemma cleanup_eq:
  "cleanup orc h w =
     (Promise_all (map promise_of_reply (cleanup_replies orc h w)), h,
      w\<lparr>calls := calls w @
          map (\<lambda>fileId. \<lparr>via = driveService h, rpc = ''files.delete'',
                           params = JObj [(''fileId'', fileId)]\<rparr>) (filesToDelete h)\<rparr>)"
  by (simp add: cleanup_def cleanup_replies_def split_def issue_all_world issue_all_replies)

lemma Promise_all_resolved:
  assumes "\<forall>r\<in>set rs. \<not> truthy (err r)"
  shows "Promise_all (map promise_of_reply rs) =
           (Resolved (JArr (map res rs)), fold max (map delay rs) 0)"
proof -
  have "first_rejection (map promise_of_reply rs) = None"
    using assms by (intro first_rejection_all_Inr) (auto simp: promise_of_reply_def)
  moreover have "map fulfilled_value (map promise_of_reply rs) = map res rs"
    using assms by (induction rs) (simp_all add: promise_of_reply_def)
  moreover have "map snd (map promise_of_reply rs) = map delay rs"
    by (simp add: promise_of_reply_def)
  ultimately show ?thesis by (simp only: Promise_all_def option.case)
qed

lemma Promise_all_rejected:
  assumes "\<exists>r\<in>set rs. truthy (err r)"
  shows "\<exists>r\<in>set rs. truthy (err r) \<and>
           Promise_all (map promise_of_reply rs) = (Rejected (err r), delay r) \<and>
           (\<forall>r'\<in>set rs. truthy (err r') \<longrightarrow> delay r \<le> delay r')"
proof -
  let ?ps = "map promise_of_reply rs"
  from assms obtain r0 where r0: "r0 \<in> set rs" "truthy (err r0)" by blast
  have a: "promise_of_reply r0 \<in> set ?ps"
    using r0(1) by simp
  have b: "fst (promise_of_reply r0) = Inl (err r0)"
    using r0(2) by (simp add: promise_of_reply_def)
  have "first_rejection ?ps \<noteq> None"
  proof
    assume "first_rejection ?ps = None"
    from first_rejection_None[OF this a] b show False by simp
  qed
  then obtain e t where et: "first_rejection ?ps = Some (e, t)"
    by (cases "first_rejection ?ps") auto
  from first_rejection_Some[OF et]
  have mem: "(Inl e, t) \<in> set ?ps" and least: "\<And>e' t'. (Inl e', t') \<in> set ?ps \<Longrightarrow> t \<le> t'"
    by blast+
  from mem obtain r where r: "r \<in> set rs" "promise_of_reply r = (Inl e, t)" by auto
  then have rt: "truthy (err r)" "e = err r" "t = delay r"
    by (auto simp: promise_of_reply_def split: if_splits)
  have "\<forall>r'\<in>set rs. truthy (err r') \<longrightarrow> delay r \<le> delay r'"
  proof (intro ballI impI)
    fix r' assume r': "r' \<in> set rs" "truthy (err r')"
    have "promise_of_reply r' \<in> set ?ps"
      using r'(1) by simp
    moreover have "promise_of_reply r' = (Inl (err r'), delay r')"
      using r'(2) by (simp add: promise_of_reply_def)
    ultimately have "(Inl (err r'), delay r') \<in> set ?ps"
      by (simp only:)
    from least[OF this] rt show "delay r \<le> delay r'" by simp
  qed
  moreover have "Promise_all ?ps = (Rejected (err r), delay r)"
    using et rt by (simp add: Promise_all_def)
  ultimately show ?thesis using r(1) rt(1) by blast
qed

lemma two_files_list: "filesToDelete two_files = [JStr ''p1'', JStr ''s1'']"
  by (simp add: two_files_def deleteFileOnCleanup_def Helpers_constructor_def)

lemma replies_first_fails:
  "cleanup_replies first_fails_remote two_files no_calls = [first_fails_remote 0, first_fails_remote 1]"
  by (simp add: cleanup_replies_def two_files_list no_calls_def upt_rec)

lemma cleanup_first_fails: "fst (cleanup first_fails_remote two_files no_calls) = (Rejected not_found, 1)"
  by (simp add: cleanup_eq replies_first_fails Promise_all_def promise_of_reply_def
      first_fails_remote_def not_found_def)


section \<open>Facts about the concrete runs\<close>

lemmas method_defs = createTestPresentation_def addSlides_def createTestTextbox_def
  createTestSheetsChart_def createTestSpreadsheet_def populateValues_def

lemma no_calls_simps: "calls no_calls = []" "console no_calls = []"
  by (simp_all add: no_calls_def)

lemma ok_remote_simps:
  "err (ok_remote n) = JNull" "res (ok_remote n) = sample_response" "delay (ok_remote n) = Suc n"
  by (simp_all add: ok_remote_def)

lemma failing_remote_simps:
  "err (failing_remote n) = not_found" "truthy not_found"
  by (simp_all add: failing_remote_def not_found_def)

lemma first_fails_remote_simps:
  "err (first_fails_remote 0) = not_found" "delay (first_fails_remote 0) = 1"
  "err (first_fails_remote (Suc 0)) = JNull" "delay (first_fails_remote (Suc 0)) = 5"
  by (simp_all add: first_fails_remote_def)

lemma obtain_client_chat: "obtain_client USER_AUTH_OAUTH_SCOPES = Inr chat_client"
  by (simp add: obtain_client_def chat_client_def)

lemma sample_response_paths:
  "path sample_response [Dot ''data'', Dot ''presentationId''] = Inr (JStr ''p1'')"
  "path sample_response [Dot ''data'', Dot ''spreadsheetId''] = Inr (JStr ''s1'')"
  "path sample_response [Dot ''data'', Dot ''replies'', At 0, Dot ''createShape'',
     Dot ''objectId''] = Inr (JStr ''MyTextBox_01'')"
  by (simp_all add: sample_response_def)

lemma replies_ok:
  "cleanup_replies ok_remote two_files no_calls = [ok_remote 0, ok_remote 1]"
  by (simp add: cleanup_replies_def two_files_list no_calls_def upt_rec)

lemma slide_ids_3:
  "map (\<lambda>i. JStr (''slide_'' @ decimal i)) [0..<nat 3] =
     [JStr ''slide_0'', JStr ''slide_1'', JStr ''slide_2'']"
  by (simp add: upt_rec decimal.simps digit_def)

lemma ceiling_five_halves: "\<lceil>5 / 2 :: rat\<rceil> = 3"
  by (rule ceiling_unique) simp_all

lemma addSlides_loop_five_halves:
  "snd (addSlides_loop 0 (5 / 2) l [] []) =
     [JStr ''slide_0'', JStr ''slide_1'', JStr ''slide_2'']"
  "length (fst (addSlides_loop 0 (5 / 2) l [] [])) = 3"
  unfolding addSlides_loop_eq [of "[]" 0 "5 / 2" l "[]", simplified] ceiling_five_halves
  using slide_ids_3 by simp_all

lemma no_client_rejects: "no_client USER_AUTH_OAUTH_SCOPES = Inl (JStr ''no credentials'')"
  by (simp add: no_client_def)

section \<open>The list of files to delete\<close>

text \<open>
  Claim C1. The list \<open>filesToDelete\<close> is the only part of the helper object that ever
  changes. The constructor creates it empty. The two methods that create a Drive file,
  \<open>createTestPresentation\<close> and \<open>createTestSpreadsheet\<close>, add the identifier they resolve
  with at the end of the list and change nothing else; when their promise is not resolved
  (it is rejected, or the callback threw) the object is as it was before. The other methods
  leave the whole object as it was.
\<close>

theorem filesToDelete_tracking:
  "filesToDelete Helpers_constructor = [] \<and>
   (fst (createTestPresentation orc h w) = Resolved v \<longrightarrow>
      fst (snd (createTestPresentation orc h w)) = h\<lparr>filesToDelete := filesToDelete h @ [v]\<rparr>) \<and>
   ((\<forall>u. fst (createTestPresentation orc h w) \<noteq> Resolved u) \<longrightarrow>
      fst (snd (createTestPresentation orc h w)) = h) \<and>
   (fst (createTestSpreadsheet orc h w) = Resolved v \<longrightarrow>
      fst (snd (createTestSpreadsheet orc h w)) = h\<lparr>filesToDelete := filesToDelete h @ [v]\<rparr>) \<and>
   ((\<forall>u. fst (createTestSpreadsheet orc h w) \<noteq> Resolved u) \<longrightarrow>
      fst (snd (createTestSpreadsheet orc h w)) = h) \<and>
   fst (snd (addSlides orc h w presentationId num predefinedLayout)) = h \<and>
   fst (snd (createTestTextbox orc h w presentationId pageObjectId)) = h \<and>
   fst (snd (createTestSheetsChart orc h w presentationId pageId spreadsheetId sheetChartId)) = h \<and>
   fst (snd (populateValues orc h w spreadsheetId)) = h \<and>
   fst (snd (cleanup orc h w)) = h"
  by (simp add: Helpers_constructor_def method_defs cleanup_eq
        deleteFileOnCleanup_def invoke_def split_def Let_def split: sum.splits)

text \<open>
  A run of each case: the presentation and the spreadsheet created, and both calls failing
  with two identifiers already in the list.
\<close>

theorem filesToDelete_tracking_witness:
  "fst (createTestPresentation ok_remote Helpers_constructor no_calls) = Resolved (JStr ''p1'') \<and>
   filesToDelete (fst (snd (createTestPresentation ok_remote Helpers_constructor no_calls))) =
     [JStr ''p1''] \<and>
   fst (createTestSpreadsheet ok_remote two_files no_calls) = Resolved (JStr ''s1'') \<and>
   filesToDelete (fst (snd (createTestSpreadsheet ok_remote two_files no_calls))) =
     [JStr ''p1'', JStr ''s1'', JStr ''s1''] \<and>
   fst (createTestPresentation failing_remote two_files no_calls) = Rejected not_found \<and>
   filesToDelete (fst (snd (createTestPresentation failing_remote two_files no_calls))) =
     [JStr ''p1'', JStr ''s1''] \<and>
   fst (createTestSpreadsheet failing_remote two_files no_calls) = Rejected not_found \<and>
   filesToDelete (fst (snd (createTestSpreadsheet failing_remote two_files no_calls))) =
     [JStr ''p1'', JStr ''s1'']"
proof -
  have p: "fst (createTestPresentation ok_remote Helpers_constructor no_calls) =
             Resolved (JStr ''p1'')"
    by (simp add: createTestPresentation_def invoke_def ok_remote_simps sample_response_paths del: path.simps)
  have s: "fst (createTestSpreadsheet ok_remote two_files no_calls) = Resolved (JStr ''s1'')"
    by (simp add: createTestSpreadsheet_def invoke_def ok_remote_simps sample_response_paths del: path.simps)
  have pf: "fst (createTestPresentation failing_remote two_files no_calls) = Rejected not_found"
    by (simp add: createTestPresentation_def invoke_def failing_remote_simps)
  have sf: "fst (createTestSpreadsheet failing_remote two_files no_calls) = Rejected not_found"
    by (simp add: createTestSpreadsheet_def invoke_def failing_remote_simps)
  have pf': "\<forall>u. fst (createTestPresentation failing_remote two_files no_calls) \<noteq> Resolved u"
    using pf by simp
  have sf': "\<forall>u. fst (createTestSpreadsheet failing_remote two_files no_calls) \<noteq> Resolved u"
    using sf by simp
  show ?thesis
    using p s pf sf pf' sf'
      filesToDelete_tracking [of ok_remote Helpers_constructor no_calls "JStr ''p1''"]
      filesToDelete_tracking [of ok_remote two_files no_calls "JStr ''s1''"]
      filesToDelete_tracking [of failing_remote two_files no_calls]
    by (simp add: two_files_list Helpers_constructor_def)
qed

section \<open>cleanup\<close>

text \<open>
  Claim C2, as amended. \<open>cleanup\<close> issues exactly one \<open>files.delete\<close> call for each
  element of \<open>filesToDelete\<close>, in the order of the list, with that element as the
  \<open>fileId\<close>. When every delete succeeds its promise resolves with the list of the
  responses, and no earlier than any of the deletes settles. When some delete fails the
  promise is rejected with the error of the earliest failing delete, at the time that
  delete fails: \<open>Promise.all\<close> does not wait for the others.
\<close>

theorem cleanup_deletes:
  "calls (snd (snd (cleanup orc h w))) =
     calls w @ map (\<lambda>fileId. \<lparr>via = driveService h, rpc = ''files.delete'',
                               params = JObj [(''fileId'', fileId)]\<rparr>) (filesToDelete h) \<and>
   ((\<forall>r\<in>set (cleanup_replies orc h w). \<not> truthy (err r)) \<longrightarrow>
      fst (fst (cleanup orc h w)) = Resolved (JArr (map res (cleanup_replies orc h w))) \<and>
      (\<forall>r\<in>set (cleanup_replies orc h w). delay r \<le> snd (fst (cleanup orc h w)))) \<and>
   ((\<exists>r\<in>set (cleanup_replies orc h w). truthy (err r)) \<longrightarrow>
      (\<exists>r\<in>set (cleanup_replies orc h w). truthy (err r) \<and>
         fst (cleanup orc h w) = (Rejected (err r), delay r) \<and>
         (\<forall>r'\<in>set (cleanup_replies orc h w). truthy (err r') \<longrightarrow> delay r \<le> delay r')))"
proof (intro conjI impI)
  show "calls (snd (snd (cleanup orc h w))) =
     calls w @ map (\<lambda>fileId. \<lparr>via = driveService h, rpc = ''files.delete'',
                               params = JObj [(''fileId'', fileId)]\<rparr>) (filesToDelete h)"
    by (simp add: cleanup_eq)
next
  assume ok: "\<forall>r\<in>set (cleanup_replies orc h w). \<not> truthy (err r)"
  show "fst (fst (cleanup orc h w)) = Resolved (JArr (map res (cleanup_replies orc h w)))"
    by (simp add: cleanup_eq Promise_all_resolved[OF ok])
  show "\<forall>r\<in>set (cleanup_replies orc h w). delay r \<le> snd (fst (cleanup orc h w))"
    by (simp add: cleanup_eq Promise_all_resolved[OF ok] fold_max_bound)
next
  assume "\<exists>r\<in>set (cleanup_replies orc h w). truthy (err r)"
  from Promise_all_rejected[OF this]
  show "\<exists>r\<in>set (cleanup_replies orc h w). truthy (err r) \<and>
         fst (cleanup orc h w) = (Rejected (err r), delay r) \<and>
         (\<forall>r'\<in>set (cleanup_replies orc h w). truthy (err r') \<longrightarrow> delay r \<le> delay r')"
    by (simp add: cleanup_eq)
qed

text \<open>
  A run with both deletes succeeding, after one and two ticks, and a run in which the first
  delete fails.
\<close>

theorem cleanup_deletes_witness:
  "calls (snd (snd (cleanup ok_remote two_files no_calls))) =
     [\<lparr>via = driveService two_files, rpc = ''files.delete'',
        params = JObj [(''fileId'', JStr ''p1'')]\<rparr>,
      \<lparr>via = driveService two_files, rpc = ''files.delete'',
        params = JObj [(''fileId'', JStr ''s1'')]\<rparr>] \<and>
   fst (fst (cleanup ok_remote two_files no_calls)) =
     Resolved (JArr [sample_response, sample_response]) \<and>
   delay (ok_remote 0) \<le> snd (fst (cleanup ok_remote two_files no_calls)) \<and>
   delay (ok_remote 1) \<le> snd (fst (cleanup ok_remote two_files no_calls)) \<and>
   truthy (err (first_fails_remote 0)) \<and>
   fst (cleanup first_fails_remote two_files no_calls) = (Rejected not_found, 1)"
proof -
  have ok: "\<forall>r\<in>set (cleanup_replies ok_remote two_files no_calls). \<not> truthy (err r)"
    by (simp add: replies_ok ok_remote_simps)
  have bad: "\<exists>r\<in>set (cleanup_replies first_fails_remote two_files no_calls). truthy (err r)"
    by (simp add: replies_first_fails first_fails_remote_simps failing_remote_simps)
  from cleanup_deletes [of ok_remote two_files no_calls] ok
  have "calls (snd (snd (cleanup ok_remote two_files no_calls))) =
          calls no_calls @ map (\<lambda>fileId. \<lparr>via = driveService two_files, rpc = ''files.delete'',
                               params = JObj [(''fileId'', fileId)]\<rparr>) (filesToDelete two_files)"
    and "fst (fst (cleanup ok_remote two_files no_calls)) =
          Resolved (JArr (map res (cleanup_replies ok_remote two_files no_calls)))"
    and "\<forall>r\<in>set (cleanup_replies ok_remote two_files no_calls).
           delay r \<le> snd (fst (cleanup ok_remote two_files no_calls))"
    by blast+
  moreover from cleanup_deletes [of first_fails_remote two_files no_calls] bad
  have "\<exists>r\<in>set (cleanup_replies first_fails_remote two_files no_calls). truthy (err r) \<and>
         fst (cleanup first_fails_remote two_files no_calls) = (Rejected (err r), delay r)"
    by blast
  ultimately show ?thesis
    by (simp add: replies_ok replies_first_fails ok_remote_simps first_fails_remote_simps
          failing_remote_simps two_files_list no_calls_simps)
qed

text \<open>
  The promise of \<open>cleanup\<close> does not always settle after all the delete calls have
  settled: with two tracked files, the first delete failing after one tick and the second
  succeeding after five, the promise is rejected after one tick, before the second delete
  settles.
\<close>

theorem cleanup_settles_early_counterexample:
  "first_fails_remote 1 \<in> set (cleanup_replies first_fails_remote two_files no_calls) \<and>
   snd (fst (cleanup first_fails_remote two_files no_calls)) < delay (first_fails_remote 1)"
  by (simp add: replies_first_fails cleanup_first_fails first_fails_remote_simps)

text \<open>
  Claim C3, as amended. After \<open>reset\<close> the list \<open>filesToDelete\<close> is empty. \<open>cleanup\<close>
  reads the list and does not change it: after \<open>cleanup\<close> the list holds the identifiers
  it held before, until \<open>reset\<close> is invoked.
\<close>

theorem reset_empties_cleanup_keeps:
  "filesToDelete (reset h) = [] \<and>
   filesToDelete (fst (snd (cleanup orc h w))) = filesToDelete h"
  by (simp add: reset_def cleanup_eq)

text \<open>
  The list is not drained by \<open>cleanup\<close>: with two tracked files and every delete
  succeeding, both identifiers are still in the list afterwards.
\<close>

theorem cleanup_keeps_list_counterexample:
  "filesToDelete (fst (snd (cleanup ok_remote two_files no_calls))) = [JStr ''p1'', JStr ''s1''] \<and>
   filesToDelete (fst (snd (cleanup ok_remote two_files no_calls))) \<noteq> []"
  by (simp add: cleanup_eq two_files_list)

section \<open>Failing calls\<close>

text \<open>
  Claim C4. When the remote call fails (the callback receives a truthy \<open>err\<close>), each of
  the six convenience methods rejects its promise with exactly that \<open>err\<close>, leaves the
  helper object as it was and has issued that one call and no other. In the chat sample,
  once the client is obtained, \<open>main\<close> is rejected with exactly the error of
  \<open>updateMembership\<close>, the top level writes that error with \<open>console.error\<close>, and the call
  was issued once. When a delete call of \<open>cleanup\<close> fails, its promise is rejected with the
  \<open>err\<close> of a failed delete, and one call was issued per tracked identifier, none twice.
\<close>

theorem remote_failure_rejects:
  "(truthy (err (orc (length (calls w)))) \<longrightarrow>
     (\<exists>c. createTestPresentation orc h w =
        (Rejected (err (orc (length (calls w)))), h, w\<lparr>calls := calls w @ [c]\<rparr>)) \<and>
     (\<exists>c. addSlides orc h w presentationId num predefinedLayout =
        (Rejected (err (orc (length (calls w)))), h, w\<lparr>calls := calls w @ [c]\<rparr>)) \<and>
     (\<exists>c. createTestTextbox orc h w presentationId pageObjectId =
        (Rejected (err (orc (length (calls w)))), h, w\<lparr>calls := calls w @ [c]\<rparr>)) \<and>
     (\<exists>c. createTestSheetsChart orc h w presentationId pageId spreadsheetId sheetChartId =
        (Rejected (err (orc (length (calls w)))), h, w\<lparr>calls := calls w @ [c]\<rparr>)) \<and>
     (\<exists>c. createTestSpreadsheet orc h w =
        (Rejected (err (orc (length (calls w)))), h, w\<lparr>calls := calls w @ [c]\<rparr>)) \<and>
     (\<exists>c. populateValues orc h w spreadsheetId =
        (Rejected (err (orc (length (calls w)))), h, w\<lparr>calls := calls w @ [c]\<rparr>)) \<and>
     (createClient USER_AUTH_OAUTH_SCOPES = Inr chatClient \<longrightarrow>
        (\<exists>c. main createClient orc w =
           (Rejected (err (orc (length (calls w)))), w\<lparr>calls := calls w @ [c]\<rparr>) \<and>
         top_level createClient orc w =
           w\<lparr>calls := calls w @ [c],
             console := console w @ [Console_error (err (orc (length (calls w))))]\<rparr>))) \<and>
   ((\<exists>r\<in>set (cleanup_replies orc h w). truthy (err r)) \<longrightarrow>
     (\<exists>r\<in>set (cleanup_replies orc h w). truthy (err r) \<and>
        fst (fst (cleanup orc h w)) = Rejected (err r)) \<and>
     length (calls (snd (snd (cleanup orc h w)))) = length (calls w) + length (filesToDelete h))"
proof (intro conjI impI)
  assume "\<exists>r\<in>set (cleanup_replies orc h w). truthy (err r)"
  from Promise_all_rejected[OF this]
  show "\<exists>r\<in>set (cleanup_replies orc h w). truthy (err r) \<and>
        fst (fst (cleanup orc h w)) = Rejected (err r)"
    by (auto simp add: cleanup_eq)
next
  show "length (calls (snd (snd (cleanup orc h w)))) = length (calls w) + length (filesToDelete h)"
    by (simp add: cleanup_eq)
qed (auto simp add: method_defs main_def top_level_def invoke_def split_def Let_def)

text \<open>
  Runs in which every call fails with the same error, and a \<open>cleanup\<close> whose first delete
  fails.
\<close>

theorem remote_failure_rejects_witness:
  "truthy (err (failing_remote (length (calls no_calls)))) \<and>
   fst (createTestPresentation failing_remote Helpers_constructor no_calls) = Rejected not_found \<and>
   fst (populateValues failing_remote Helpers_constructor no_calls (JStr ''s1'')) =
     Rejected not_found \<and>
   obtain_client USER_AUTH_OAUTH_SCOPES = Inr chat_client \<and>
   console (top_level obtain_client failing_remote no_calls) = [Console_error not_found] \<and>
   length (calls (top_level obtain_client failing_remote no_calls)) = 1 \<and>
   truthy (err (first_fails_remote 0)) \<and>
   length (calls (snd (snd (cleanup first_fails_remote two_files no_calls)))) = 2"
proof -
  have f: "truthy (err (failing_remote (length (calls no_calls))))"
    by (simp add: failing_remote_simps)
  have bad: "\<exists>r\<in>set (cleanup_replies first_fails_remote two_files no_calls). truthy (err r)"
    by (simp add: replies_first_fails first_fails_remote_simps failing_remote_simps)
  from remote_failure_rejects [of failing_remote no_calls Helpers_constructor JNull 0 JNull JNull
      JNull "JStr ''s1''" JNull obtain_client chat_client] f obtain_client_chat
  have "\<exists>c. createTestPresentation failing_remote Helpers_constructor no_calls =
          (Rejected (err (failing_remote (length (calls no_calls)))), Helpers_constructor,
           no_calls\<lparr>calls := calls no_calls @ [c]\<rparr>)"
    and "\<exists>c. populateValues failing_remote Helpers_constructor no_calls (JStr ''s1'') =
          (Rejected (err (failing_remote (length (calls no_calls)))), Helpers_constructor,
           no_calls\<lparr>calls := calls no_calls @ [c]\<rparr>)"
    and "\<exists>c. top_level obtain_client failing_remote no_calls =
           no_calls\<lparr>calls := calls no_calls @ [c],
             console := console no_calls @
               [Console_error (err (failing_remote (length (calls no_calls))))]\<rparr>"
    by blast+
  moreover from remote_failure_rejects [of first_fails_remote no_calls two_files] bad
  have "length (calls (snd (snd (cleanup first_fails_remote two_files no_calls)))) =
          length (calls no_calls) + length (filesToDelete two_files)"
    by blast
  ultimately show ?thesis
    using f obtain_client_chat
    by (auto simp add: failing_remote_simps first_fails_remote_simps two_files_list no_calls_simps)
qed

section \<open>One call, with one payload\<close>

text \<open>
  Claim C5, as amended. Whatever the remote side answers, each of the six convenience
  methods adds exactly one call to the calls issued, and the parameter object of that call
  is the object literal of the method, filled with the arguments of the method alone (the
  edit operations of \<open>addSlides\<close>, \<open>createTestTextbox\<close> and \<open>createTestSheetsChart\<close> are
  the \<open>requests\<close> of one \<open>batchUpdate\<close>). The chat sample issues exactly one
  \<open>updateMembership\<close> call, with the request of the script, when
  \<open>createClientWithUserCredentials\<close> gives it the client, and no call at all when the
  creation of the client is rejected.
\<close>

theorem one_remote_call_per_invocation:
  "calls (snd (snd (createTestPresentation orc h w))) =
     calls w @ [\<lparr>via = slidesService h, rpc = ''presentations.create'',
                 params = JObj [(''title'', JStr ''Test Preso'')]\<rparr>] \<and>
   calls (snd (snd (addSlides orc h w presentationId num predefinedLayout))) =
     calls w @
     [\<lparr>via = slidesService h, rpc = ''presentations.batchUpdate'',
       params =
         JObj [(''presentationId'', presentationId),
               (''resource'',
                JObj [(''requests'',
                       JArr (map (\<lambda>i. JObj [(''createSlide'',
                                               JObj [(''objectId'', JStr (''slide_'' @ decimal i)),
                                                     (''slideLayoutReference'',
                                                      JObj [(''predefinedLayout'',
                                                             predefinedLayout)])])])
                                 [0..<nat \<lceil>num\<rceil>]))])]\<rparr>] \<and>
   calls (snd (snd (createTestTextbox orc h w presentationId pageObjectId))) =
     calls w @
     [\<lparr>via = slidesService h, rpc = ''presentations.batchUpdate'',
       params =
         JObj [(''presentationId'', presentationId),
               (''resource'',
                JObj [(''requests'',
                       JArr [JObj [(''createShape'',
                                    JObj [(''objectId'', JStr ''MyTextBox_01''),
                                          (''shapeType'', JStr ''TEXT_BOX''),
                                          (''elementProperties'',
                                           JObj [(''pageObjectId'', pageObjectId),
                                                 (''size'',
                                                  JObj [(''height'',
                                                         JObj [(''magnitude'', JNum 350),
                                                               (''unit'', JStr ''PT'')]),
                                                        (''width'',
                                                         JObj [(''magnitude'', JNum 350),
                                                               (''unit'', JStr ''PT'')])]),
                                                 (''transform'',
                                                  JObj [(''scaleX'', JNum 1),
                                                        (''scaleY'', JNum 1),
                                                        (''translateX'', JNum 350),
                                                        (''translateY'', JNum 100),
                                                        (''unit'', JStr ''PT'')])])])],
                             JObj [(''insertText'',
                                    JObj [(''objectId'', JStr ''MyTextBox_01''),
                                          (''insertionIndex'', JNum 0),
                                          (''text'', JStr ''New Box Text Inserted'')])]])])]\<rparr>] \<and>
   calls (snd (snd (createTestSheetsChart orc h w presentationId pageId spreadsheetId
                      sheetChartId))) =
     calls w @
     [\<lparr>via = slidesService h, rpc = ''presentations.batchUpdate'',
       params =
         JObj [(''presentationId'', presentationId),
               (''resource'',
                JObj [(''requests'',
                       JArr [JObj [(''createSheetsChart'',
                                    JObj [(''objectId'', JStr ''MyChart_01''),
                                          (''spreadsheetId'', spreadsheetId),
                                          (''chartId'', sheetChartId),
                                          (''linkingMode'', JStr ''LINKED''),
                                          (''elementProperties'',
                                           JObj [(''pageObjectId'', pageId),
                                                 (''size'',
                                                  JObj [(''height'',
                                                         JObj [(''magnitude'', JNum 4000000),
                                                               (''unit'', JStr ''EMU'')]),
                                                        (''width'',
                                                         JObj [(''magnitude'', JNum 4000000),
                                                               (''unit'', JStr ''EMU'')])]),
                                                 (''transform'',
                                                  JObj [(''scaleX'', JNum 1),
                                                        (''scaleY'', JNum 1),
                                                        (''translateX'', JNum 100000),
                                                        (''translateY'', JNum 100000),
                                                        (''unit'', JStr ''EMU'')])])])]])])]\<rparr>] \<and>
   calls (snd (snd (createTestSpreadsheet orc h w))) =
     calls w @
     [\<lparr>via = sheetsService h, rpc = ''spreadsheets.create'',
       params =
         JObj [(''resource'',
                JObj [(''properties'', JObj [(''title'', JStr ''Test Spreadsheet'')])]),
               (''fields'', JStr ''spreadsheetId'')]\<rparr>] \<and>
   calls (snd (snd (populateValues orc h w spreadsheetId))) =
     calls w @
     [\<lparr>via = sheetsService h, rpc = ''spreadsheets.batchUpdate'',
       params =
         JObj [(''spreadsheetId'', spreadsheetId),
               (''resource'',
                JObj [(''requests'',
                       JArr [JObj [(''repeatCell'',
                                    JObj [(''range'',
                                           JObj [(''sheetId'', JNum 0),
                                                 (''startRowIndex'', JNum 0),
                                                 (''endRowIndex'', JNum 15),
                                                 (''startColumnIndex'', JNum 0),
                                                 (''endColumnIndex'', JNum 15)]),
                                          (''cell'',
                                           JObj [(''userEnteredValue'',
                                                  JObj [(''stringValue'', JStr ''Hello'')])]),
                                          (''fields'', JStr ''userEnteredValue'')])]])])]\<rparr>] \<and>
   (createClient USER_AUTH_OAUTH_SCOPES = Inr chatClient \<longrightarrow>
      calls (snd (main createClient orc w)) =
        calls w @
        [\<lparr>via = chatClient, rpc = ''updateMembership'',
          params =
            JObj [(''membership'',
                   JObj [(''name'', JStr ''spaces/SPACE_NAME/members/MEMBER_NAME''),
                         (''role'', JStr ''ROLE_NAME'')]),
                  (''updateMask'', JObj [(''paths'', JArr [JStr ''role''])])]\<rparr>] \<and>
      calls (top_level createClient orc w) = calls (snd (main createClient orc w))) \<and>
   (createClient USER_AUTH_OAUTH_SCOPES = Inl e \<longrightarrow>
      calls (snd (main createClient orc w)) = calls w \<and>
      calls (top_level createClient orc w) = calls w)"
proof (intro conjI impI)
  show "calls (snd (snd (addSlides orc h w presentationId num predefinedLayout))) =
     calls w @
     [\<lparr>via = slidesService h, rpc = ''presentations.batchUpdate'',
       params =
         JObj [(''presentationId'', presentationId),
               (''resource'',
                JObj [(''requests'',
                       JArr (map (\<lambda>i. JObj [(''createSlide'',
                                               JObj [(''objectId'', JStr (''slide_'' @ decimal i)),
                                                     (''slideLayoutReference'',
                                                      JObj [(''predefinedLayout'',
                                                             predefinedLayout)])])])
                                 [0..<nat \<lceil>num\<rceil>]))])]\<rparr>]"
    by (simp add: addSlides_def addSlides_loop_eq batchUpdate_params_def createSlide_request_def
          invoke_def split_def Let_def)
qed (simp_all add: method_defs main_def top_level_def invoke_def split_def Let_def
       batchUpdate_params_def createTestPresentation_request_def createTestTextbox_requests_def
       createTestSheetsChart_requests_def createTestSpreadsheet_request_def
       populateValues_request_def main_request_def split: sum.splits outcome.splits)

text \<open>A run of the chat sample with the client obtained, and one with its creation
  rejected.\<close>

theorem one_remote_call_per_invocation_witness:
  "obtain_client USER_AUTH_OAUTH_SCOPES = Inr chat_client \<and>
   calls (top_level obtain_client ok_remote no_calls) =
     [\<lparr>via = chat_client, rpc = ''updateMembership'', params = main_request\<rparr>] \<and>
   no_client USER_AUTH_OAUTH_SCOPES = Inl (JStr ''no credentials'') \<and>
   calls (snd (main no_client ok_remote no_calls)) = calls no_calls"
proof -
  from one_remote_call_per_invocation [of ok_remote Helpers_constructor no_calls
      JNull 0 JNull JNull JNull JNull JNull obtain_client chat_client] obtain_client_chat
  have "calls (top_level obtain_client ok_remote no_calls) =
          calls no_calls @
          [\<lparr>via = chat_client, rpc = ''updateMembership'',
            params =
              JObj [(''membership'',
                     JObj [(''name'', JStr ''spaces/SPACE_NAME/members/MEMBER_NAME''),
                           (''role'', JStr ''ROLE_NAME'')]),
                    (''updateMask'', JObj [(''paths'', JArr [JStr ''role''])])]\<rparr>]"
    by simp
  moreover from one_remote_call_per_invocation [of ok_remote Helpers_constructor no_calls
      JNull 0 JNull JNull JNull JNull JNull no_client _ "JStr ''no credentials''"]
    no_client_rejects
  have "calls (snd (main no_client ok_remote no_calls)) = calls no_calls"
    by blast
  ultimately show ?thesis
    using obtain_client_chat no_client_rejects
    by (simp add: no_calls_simps main_request_def)
qed

text \<open>
  The chat sample does not issue one call in every run: when the creation of the client
  is rejected, \<open>main\<close> ends at its first \<open>await\<close>, the top level logs the error, and no
  call has been issued.
\<close>

theorem no_client_no_call_counterexample:
  "calls (snd (main no_client ok_remote no_calls)) = [] \<and>
   calls (top_level no_client ok_remote no_calls) = [] \<and>
   console (top_level no_client ok_remote no_calls) = [Console_error (JStr ''no credentials'')]"
  by (simp add: main_def top_level_def no_client_def no_calls_def)

section \<open>Results of successful calls\<close>

text \<open>
  Claim C6. When the remote call succeeds (\<open>err\<close> is falsy), \<open>createTestPresentation\<close>
  resolves with the value at \<open>data.presentationId\<close> of the response,
  \<open>createTestSpreadsheet\<close> with the value at \<open>data.spreadsheetId\<close>, and
  \<open>createTestTextbox\<close> with the value at \<open>data.replies[0].createShape.objectId\<close>, for
  every response in which that member expression has a value; the chat sample, once the
  client is obtained, writes the response of \<open>updateMembership\<close> with \<open>console.log\<close>.
\<close>

theorem success_extracts_result:
  "\<not> truthy (err (orc (length (calls w)))) \<Longrightarrow>
   (path (res (orc (length (calls w)))) [Dot ''data'', Dot ''presentationId''] = Inr v \<longrightarrow>
      fst (createTestPresentation orc h w) = Resolved v) \<and>
   (path (res (orc (length (calls w)))) [Dot ''data'', Dot ''spreadsheetId''] = Inr v \<longrightarrow>
      fst (createTestSpreadsheet orc h w) = Resolved v) \<and>
   (path (res (orc (length (calls w))))
        [Dot ''data'', Dot ''replies'', At 0, Dot ''createShape'', Dot ''objectId'']
      = Inr v \<longrightarrow>
      fst (createTestTextbox orc h w presentationId pageObjectId) = Resolved v) \<and>
   (createClient USER_AUTH_OAUTH_SCOPES = Inr chatClient \<longrightarrow>
      console (top_level createClient orc w) =
        console w @ [Console_log (res (orc (length (calls w))))])"
  by (simp add: method_defs main_def top_level_def invoke_def split_def Let_def)

text \<open>
  A run of each of the four against a remote side that answers with a well-formed response.
\<close>

theorem success_extracts_result_witness:
  "\<not> truthy (err (ok_remote (length (calls no_calls)))) \<and>
   fst (createTestPresentation ok_remote Helpers_constructor no_calls) = Resolved (JStr ''p1'') \<and>
   fst (createTestSpreadsheet ok_remote Helpers_constructor no_calls) = Resolved (JStr ''s1'') \<and>
   fst (createTestTextbox ok_remote Helpers_constructor no_calls (JStr ''p1'') (JStr ''slide_0'')) =
     Resolved (JStr ''MyTextBox_01'') \<and>
   console (top_level obtain_client ok_remote no_calls) = [Console_log sample_response]"
proof -
  have ok: "\<not> truthy (err (ok_remote (length (calls no_calls))))"
    by (simp add: ok_remote_simps)
  have r: "res (ok_remote (length (calls no_calls))) = sample_response"
    by (simp add: ok_remote_simps)
  show ?thesis
    using ok obtain_client_chat
      success_extracts_result [of ok_remote no_calls "JStr ''p1''" Helpers_constructor
        "JStr ''p1''" "JStr ''slide_0''" obtain_client chat_client]
      success_extracts_result [of ok_remote no_calls "JStr ''s1''" Helpers_constructor
        "JStr ''p1''" "JStr ''slide_0''" obtain_client chat_client]
      success_extracts_result [of ok_remote no_calls "JStr ''MyTextBox_01''" Helpers_constructor
        "JStr ''p1''" "JStr ''slide_0''" obtain_client chat_client]
    by (simp add: ok_remote_simps sample_response_paths no_calls_simps del: path.simps)
qed

section \<open>The request of the chat sample\<close>

text \<open>
  Claim C7. The request that \<open>main\<close> passes to \<open>updateMembership\<close> is the object with
  the two fields \<open>membership\<close>, an object with the fields \<open>name\<close> and \<open>role\<close>, and
  \<open>updateMask\<close>, an object whose field \<open>paths\<close> is the one-element list \<open>['role']\<close>;
  it is the parameter of the one call issued, as it was built.
\<close>

theorem updateMembership_request:
  "createClient USER_AUTH_OAUTH_SCOPES = Inr chatClient \<Longrightarrow>
   calls (snd (main createClient orc w)) =
     calls w @
     [\<lparr>via = chatClient, rpc = ''updateMembership'',
       params =
         JObj [(''membership'',
                JObj [(''name'', JStr ''spaces/SPACE_NAME/members/MEMBER_NAME''),
                      (''role'', JStr ''ROLE_NAME'')]),
               (''updateMask'', JObj [(''paths'', JArr [JStr ''role''])])]\<rparr>]"
  by (simp add: main_def main_request_def invoke_def split_def Let_def)

text \<open>
  A run of \<open>main\<close> with a client obtained.
\<close>

theorem updateMembership_request_witness:
  "obtain_client USER_AUTH_OAUTH_SCOPES = Inr chat_client \<and>
   calls (snd (main obtain_client ok_remote no_calls)) =
     [\<lparr>via = chat_client, rpc = ''updateMembership'',
       params =
         JObj [(''membership'',
                JObj [(''name'', JStr ''spaces/SPACE_NAME/members/MEMBER_NAME''),
                      (''role'', JStr ''ROLE_NAME'')]),
               (''updateMask'', JObj [(''paths'', JArr [JStr ''role''])])]\<rparr>]"
  using obtain_client_chat updateMembership_request [of obtain_client chat_client ok_remote no_calls]
  by (simp add: no_calls_simps)

section \<open>addSlides\<close>

text \<open>
  Claim C8, as amended. For every presentation, every integer \<open>num\<close> and every layout,
  the one \<open>batchUpdate\<close> of \<open>addSlides\<close> carries the \<open>createSlide\<close> requests with the
  object identifiers \<open>slide_0\<close> to \<open>slide_(num-1)\<close>, in order, each with the given layout;
  they are exactly \<open>num\<close> requests when \<open>num\<close> is not negative, and on success the promise
  resolves with the list of these \<open>num\<close> identifiers. For a finite \<open>num\<close> that is not an
  integer the loop runs as long as \<open>i < num\<close>, so the identifiers go up to the least
  integer that is not below \<open>num\<close>, excluded. In every case the list resolved with depends
  on \<open>num\<close> alone: two successful calls with the same \<open>num\<close> resolve with the same list,
  whatever the presentation, the layout, the helper object and the answers of the remote
  side.
\<close>

theorem addSlides_ids:
  "calls (snd (snd (addSlides orc h w presentationId (of_int n) predefinedLayout))) =
     calls w @
     [\<lparr>via = slidesService h, rpc = ''presentations.batchUpdate'',
       params =
         JObj [(''presentationId'', presentationId),
               (''resource'',
                JObj [(''requests'',
                       JArr (map (\<lambda>i. JObj [(''createSlide'',
                                               JObj [(''objectId'', JStr (''slide_'' @ decimal i)),
                                                     (''slideLayoutReference'',
                                                      JObj [(''predefinedLayout'',
                                                             predefinedLayout)])])])
                                 [0..<nat n]))])]\<rparr>] \<and>
   (0 \<le> n \<longrightarrow>
      int (length (fst (addSlides_loop 0 (of_int n) predefinedLayout [] []))) = n) \<and>
   (\<not> truthy (err (orc (length (calls w)))) \<longrightarrow>
      fst (addSlides orc h w presentationId (of_int n) predefinedLayout) =
        Resolved (JArr (map (\<lambda>i. JStr (''slide_'' @ decimal i)) [0..<nat n]))) \<and>
   (\<not> truthy (err (orc (length (calls w)))) \<longrightarrow>
      fst (addSlides orc h w presentationId num predefinedLayout) =
        Resolved (JArr (map (\<lambda>i. JStr (''slide_'' @ decimal i)) [0..<nat \<lceil>num\<rceil>]))) \<and>
   (\<not> truthy (err (orc (length (calls w)))) \<and> \<not> truthy (err (orc' (length (calls w')))) \<longrightarrow>
      fst (addSlides orc h w presentationId num predefinedLayout) =
      fst (addSlides orc' h' w' presentationId' num predefinedLayout'))"
  by (simp add: addSlides_def addSlides_loop_eq batchUpdate_params_def createSlide_request_def
        invoke_def split_def Let_def)

text \<open>Two runs with three slides, for different presentations and layouts.\<close>

theorem addSlides_ids_witness:
  "(0::int) \<le> 3 \<and>
   \<not> truthy (err (ok_remote (length (calls no_calls)))) \<and>
   length (fst (addSlides_loop 0 (of_int 3) (JStr ''BLANK'') [] [])) = 3 \<and>
   fst (addSlides ok_remote Helpers_constructor no_calls (JStr ''p1'') (of_int 3)
          (JStr ''BLANK'')) =
     Resolved (JArr [JStr ''slide_0'', JStr ''slide_1'', JStr ''slide_2'']) \<and>
   fst (addSlides ok_remote Helpers_constructor no_calls (JStr ''p1'') (5 / 2) (JStr ''BLANK'')) =
   fst (addSlides ok_remote two_files no_calls (JStr ''p2'') (5 / 2) (JStr ''TITLE''))"
proof -
  have ok: "\<not> truthy (err (ok_remote (length (calls no_calls))))"
    by (simp add: ok_remote_simps)
  have n: "(0::int) \<le> 3" by simp
  from addSlides_ids [of ok_remote Helpers_constructor no_calls "JStr ''p1''" 3 "JStr ''BLANK''"
      "5 / 2" ok_remote no_calls two_files "JStr ''p2''" "JStr ''TITLE''"] ok n
  have "int (length (fst (addSlides_loop 0 (of_int 3) (JStr ''BLANK'') [] []))) = 3"
    and "fst (addSlides ok_remote Helpers_constructor no_calls (JStr ''p1'') (of_int 3)
               (JStr ''BLANK'')) =
           Resolved (JArr (map (\<lambda>i. JStr (''slide_'' @ decimal i)) [0..<nat 3]))"
    and "fst (addSlides ok_remote Helpers_constructor no_calls (JStr ''p1'') (5 / 2)
               (JStr ''BLANK'')) =
         fst (addSlides ok_remote two_files no_calls (JStr ''p2'') (5 / 2) (JStr ''TITLE''))"
    by blast+
  then show ?thesis
    using ok unfolding slide_ids_3 by simp
qed

text \<open>
  With \<open>num = 2.5\<close> the loop runs for \<open>i = 0, 1, 2\<close>: three requests are built, not
  \<open>num\<close> of them, and the last identifier is \<open>slide_2\<close>.
\<close>

theorem addSlides_fractional_counterexample:
  "(0::rat) \<le> 5 / 2 \<and>
   \<not> truthy (err (ok_remote (length (calls no_calls)))) \<and>
   fst (addSlides ok_remote Helpers_constructor no_calls (JStr ''p1'') (5 / 2) (JStr ''BLANK'')) =
     Resolved (JArr [JStr ''slide_0'', JStr ''slide_1'', JStr ''slide_2'']) \<and>
   length (fst (addSlides_loop 0 (5 / 2) (JStr ''BLANK'') [] [])) = 3 \<and>
   (of_nat (length (fst (addSlides_loop 0 (5 / 2) (JStr ''BLANK'') [] []))) :: rat) \<noteq> 5 / 2"
  by (simp add: addSlides_def invoke_def ok_remote_simps no_calls_simps split_def
        addSlides_loop_five_halves)

section \<open>Frame of reset and deleteFileOnCleanup\<close>

text \<open>
  Claim C9. \<open>reset\<close> and \<open>deleteFileOnCleanup\<close> change the field \<open>filesToDelete\<close> only:
  the three service fields keep their values, \<open>reset\<close> leaves the list empty, and
  \<open>deleteFileOnCleanup id\<close> leaves the former list with \<open>id\<close> added at its end.
\<close>

theorem reset_deleteFileOnCleanup_frame:
  "driveService (reset h) = driveService h \<and>
   slidesService (reset h) = slidesService h \<and>
   sheetsService (reset h) = sheetsService h \<and>
   filesToDelete (reset h) = [] \<and>
   driveService (deleteFileOnCleanup h fid) = driveService h \<and>
   slidesService (deleteFileOnCleanup h fid) = slidesService h \<and>
   sheetsService (deleteFileOnCleanup h fid) = sheetsService h \<and>
   filesToDelete (deleteFileOnCleanup h fid) = filesToDelete h @ [fid]"
  by (simp add: reset_def deleteFileOnCleanup_def)

section \<open>populateValues\<close>

text \<open>
  Claim C10. For every spreadsheet identifier, \<open>populateValues\<close> issues one
  \<open>spreadsheets.batchUpdate\<close> whose only request is a \<open>repeatCell\<close> on sheet 0, rows 0
  to 15 and columns 0 to 15 (end index excluded: fifteen rows and fifteen columns), with
  the string value \<open>Hello\<close> and the fields \<open>userEnteredValue\<close>; on success it resolves
  with the spreadsheet identifier it was given.
\<close>

theorem populateValues_request_and_result:
  "calls (snd (snd (populateValues orc h w spreadsheetId))) =
     calls w @
     [\<lparr>via = sheetsService h, rpc = ''spreadsheets.batchUpdate'',
       params =
         JObj [(''spreadsheetId'', spreadsheetId),
               (''resource'',
                JObj [(''requests'',
                       JArr [JObj [(''repeatCell'',
                                    JObj [(''range'',
                                           JObj [(''sheetId'', JNum 0),
                                                 (''startRowIndex'', JNum 0),
                                                 (''endRowIndex'', JNum 15),
                                                 (''startColumnIndex'', JNum 0),
                                                 (''endColumnIndex'', JNum 15)]),
                                          (''cell'',
                                           JObj [(''userEnteredValue'',
                                                  JObj [(''stringValue'', JStr ''Hello'')])]),
                                          (''fields'', JStr ''userEnteredValue'')])]])])]\<rparr>] \<and>
   (\<not> truthy (err (orc (length (calls w)))) \<longrightarrow>
      fst (populateValues orc h w spreadsheetId) = Resolved spreadsheetId)"
  by (simp add: populateValues_def populateValues_request_def invoke_def split_def Let_def)

text \<open>
  A run against a remote side that answers the call.
\<close>

theorem populateValues_request_and_result_witness:
  "\<not> truthy (err (ok_remote (length (calls no_calls)))) \<and>
   fst (populateValues ok_remote Helpers_constructor no_calls (JStr ''s1'')) =
     Resolved (JStr ''s1'')"
proof -
  have ok: "\<not> truthy (err (ok_remote (length (calls no_calls))))"
    by (simp add: ok_remote_simps)
  with populateValues_request_and_result [of ok_remote Helpers_constructor no_calls "JStr ''s1''"]
  show ?thesis by blast
qed

end
